theory Spec2Isabelle
  imports Complex_Main "HOL-Library.Multiset" "HOL-Library.Log_Nat"
begin

section \<open>The ROI projector: estimator, pattern aggregator and insight generator\<close>

text \<open>
  The development embeds two Python modules. \<^verbatim>\<open>app.py\<close> holds the request handler
  \<^verbatim>\<open>calculate_roi\<close>, whose arithmetic between the validation check and the database
  writes is the estimator. \<^verbatim>\<open>cip_engine_roi.py\<close> holds the class \<^verbatim>\<open>CIPEngineROI\<close> with
  \<^verbatim>\<open>log_patterns\<close>, \<^verbatim>\<open>_check_analysis_trigger\<close> and \<^verbatim>\<open>analyze_patterns\<close>.

  Numbers. \<^verbatim>\<open>hours_per_week\<close> and \<^verbatim>\<open>people_count\<close> are Python integers (\<^typ>\<open>int\<close>).
  \<^verbatim>\<open>hourly_cost\<close> and \<^verbatim>\<open>current_tools_cost\<close> are Python floats; they and everything
  computed from them are taken here as exact rationals (\<^typ>\<open>rat\<close>), so a statement
  below is a statement about the arithmetic the code writes down, not about infinities or
  NaN. Binary rounding is modelled where a float is turned into an integer, in the
  break-even months: there the quotient and the product are rounded to doubles before
  \<^verbatim>\<open>round\<close> is applied.
\<close>

subsection \<open>Strings\<close>

text \<open>
  \<^verbatim>\<open>str.lower()\<close>, on the ASCII letters. A byte outside \<^verbatim>\<open>A..Z\<close> is left as it is.
\<close>

definition lower_char :: "char \<Rightarrow> char" where
  "lower_char c =
     (let n = (of_char c :: nat) in if 65 \<le> n \<and> n \<le> 90 then char_of (n + 32) else c)"

definition lower :: "string \<Rightarrow> string" where
  "lower s = map lower_char s"

text \<open>\<^verbatim>\<open>sub in s\<close> for strings: \<^verbatim>\<open>sub\<close> occurs in \<^verbatim>\<open>s\<close> as a contiguous run.\<close>

fun starts_with :: "string \<Rightarrow> string \<Rightarrow> bool" where
  "starts_with [] s = True"
| "starts_with (c # cs) [] = False"
| "starts_with (c # cs) (d # ds) = (c = d \<and> starts_with cs ds)"

fun str_in :: "string \<Rightarrow> string \<Rightarrow> bool" where
  "str_in sub [] = (sub = [])"
| "str_in sub (d # ds) = (starts_with sub (d # ds) \<or> str_in sub ds)"

subsection \<open>The estimator (\<^verbatim>\<open>calculate_roi\<close> in \<^verbatim>\<open>app.py\<close>)\<close>

text \<open>
  The fields of the request body that the computation reads. \<^verbatim>\<open>data.get\<close> gives
  \<^verbatim>\<open>None\<close> for a missing string field; the numeric fields have defaults and are
  converted on extraction, so they are always numbers.
\<close>

record projection_input =
  company_name :: string
  industry :: "string option"
  process_name :: "string option"
  hours_per_week :: int
  people_count :: int
  hourly_cost :: rat
  current_tools_cost :: rat

datatype error = InvalidInput

datatype risk = High | Medium | Low

datatype tier = Strong | Good | Moderate | Concerns

text \<open>
  The local variables of \<^verbatim>\<open>calculate_roi\<close> after the industry note is computed. The
  recommendation sentence interpolates formatted numbers; the model keeps which of the four
  branches was taken (\<^typ>\<open>tier\<close>) and the branch's list of next steps, not the sentence.
\<close>

record projection_result =
  weekly_cost :: rat
  annual_labor_cost :: rat
  annual_tools_cost :: rat
  annual_cost_current :: rat
  automation_percentage :: rat
  complexity_score :: int
  implementation_cost :: int
  monthly_ai_cost :: int
  annual_ai_cost :: int
  hours_automated_weekly :: rat
  annual_labor_savings :: rat
  annual_cost_with_ai :: int
  annual_savings :: rat
  roi_percentage :: rat
  breakeven_months :: int
  risk_level :: risk
  recommendation :: tier
  next_steps :: "string list"
  industry_note :: string

text \<open>
  Python's \<^verbatim>\<open>round(x)\<close> with one argument: the nearest integer, a tie going to the even
  neighbour.
\<close>

definition py_round :: "rat \<Rightarrow> int" where
  "py_round x =
     (let f = \<lfloor>x\<rfloor>; d = x - of_int f
      in if d < 1 / 2 then f else if 1 / 2 < d then f + 1 else if even f then f else f + 1)"

text \<open>
  Binary64 rounding. \<open>binade x\<close> is the exponent \<open>e\<close> with \<open>2^e \<le> |x| < 2^(e+1)\<close>;
  \<open>to_double x\<close> is the multiple of the spacing \<open>2^(e-52)\<close> of the doubles around \<open>x\<close>
  that is nearest to \<open>x\<close>, a tie going to the even multiple (below \<open>2^-1022\<close> the spacing
  stays \<open>2^-1074\<close>). This is the result of one floating-point operation whose exact result
  is \<open>x\<close>; overflow to infinity is not modelled.
\<close>

definition binade :: "rat \<Rightarrow> int" where
  "binade x =
     (let p = fst (quotient_of \<bar>x\<bar>); q = snd (quotient_of \<bar>x\<bar>); k = bitlen p - bitlen q
      in if 2 powi k \<le> \<bar>x\<bar> then k else k - 1)"

definition to_double :: "rat \<Rightarrow> rat" where
  "to_double x =
     (if x = 0 then 0
      else let e = max (binade x) (- 1022); ulp = 2 powi (e - 52)
           in of_int (py_round (x / ulp)) * ulp)"

definition complexity :: "int \<Rightarrow> int \<Rightarrow> string \<Rightarrow> int" where
  "complexity h p name =
     (let score = 0;
          score = (if h > 40 then score + 2 else score);
          score = (if p > 5 then score + 2 else score);
          score = (if str_in ''data'' (lower name) \<or> str_in ''analysis'' (lower name)
                   then score + 1 else score);
          score = (if str_in ''customer'' (lower name) \<or> str_in ''support'' (lower name)
                   then score + 1 else score)
      in score)"

definition implementation_cost_of :: "int \<Rightarrow> int" where
  "implementation_cost_of score =
     (if score \<le> 2 then 8000 else if score \<le> 4 then 12000 else 18000)"

definition monthly_ai_cost_of :: "int \<Rightarrow> int" where
  "monthly_ai_cost_of h = (if h < 20 then 200 else if h < 40 then 400 else 800)"

text \<open>
  \<^verbatim>\<open>max(1, round((implementation_cost / annual_savings) * 12))\<close>: the division and the
  multiplication are floating-point operations, each rounded to a double, and \<^verbatim>\<open>round\<close>
  is applied to the double they give.
\<close>

definition breakeven_of :: "int \<Rightarrow> rat \<Rightarrow> int" where
  "breakeven_of impl savings =
     (if savings > 0
      then max 1 (py_round (to_double (to_double (of_int impl / savings) * 12)))
      else 999)"

definition risk_of :: "rat \<Rightarrow> int \<Rightarrow> int \<Rightarrow> rat \<Rightarrow> int \<Rightarrow> risk" where
  "risk_of automation breakeven score savings impl =
     (if automation > 8 / 10 then High
      else if breakeven > 18 then High
      else if score > 5 then Medium
      else if savings < of_int impl then High
      else Low)"

definition recommendation_of :: "rat \<Rightarrow> int \<Rightarrow> tier" where
  "recommendation_of roi breakeven =
     (if roi > 200 \<and> breakeven \<le> 12 then Strong
      else if roi > 100 \<and> breakeven \<le> 18 then Good
      else if roi > 50 then Moderate
      else Concerns)"

fun next_steps_of :: "tier \<Rightarrow> string list" where
  "next_steps_of Strong =
     [''Schedule discovery call to validate assumptions'',
      ''Review process documentation'',
      ''Create detailed technical architecture'',
      ''Start with pilot (1-2 workflows) before full rollout'']"
| "next_steps_of Good =
     [''Document current process in detail'',
      ''Identify edge cases AI will struggle with'',
      ''Consider starting with subset of work'',
      ''Plan for human oversight layer'']"
| "next_steps_of Moderate =
     [''Start with smallest viable automation'',
      ''Prove ROI with pilot before full implementation'',
      ''Consider process optimization first (cheaper than AI)'',
      ''Ensure team is ready for change'']"
| "next_steps_of Concerns =
     [''Look for higher-ROI processes first'',
      ''Consider process improvement before automation'',
      ''Revisit when process volume increases'',
      ''Explore simpler no-code tools first'']"

definition industry_note_of :: "string option \<Rightarrow> string" where
  "industry_note_of ind =
     (case ind of
        None \<Rightarrow> ''''
      | Some i \<Rightarrow>
          if i = '''' then ''''
          else if lower i \<in> set [''healthcare'', ''finance'', ''legal''] then
            ''Note: '' @ i @
            '' has compliance requirements that may add 20-30% to implementation cost and timeline.''
          else if lower i \<in> set [''logistics'', ''manufacturing''] then
            ''Note: '' @ i @
            '' automation typically sees 70-80% efficiency gains - your projection may be conservative.''
          else if lower i \<in> set [''retail'', ''ecommerce''] then
            ''Note: '' @ i @ '' AI automation has proven ROI - fast implementation typical.''
          else '''')"

text \<open>
  The computation of the handler between its validation check and its database writes, for
  a request whose process name is \<open>name\<close>.
\<close>

definition projection :: "projection_input \<Rightarrow> string \<Rightarrow> projection_result" where
  "projection inp name =
     (let h = hours_per_week inp;
          p = people_count inp;
          weekly = of_int h * hourly_cost inp * of_int p;
          labor = weekly * 52;
          tools = current_tools_cost inp * 12;
          current = labor + tools;
          automation = 65 / 100;
          score = complexity h p name;
          impl = implementation_cost_of score;
          monthly = monthly_ai_cost_of h;
          annual_ai = monthly * 12;
          automated = of_int h * automation;
          labor_savings = automated * hourly_cost inp * of_int p * 52;
          with_ai = annual_ai;
          savings = current - of_int with_ai;
          roi = ((savings - of_int impl) / of_int impl) * 100;
          breakeven = breakeven_of impl savings;
          rl = risk_of automation breakeven score savings impl;
          rec = recommendation_of roi breakeven
      in \<lparr>weekly_cost = weekly, annual_labor_cost = labor, annual_tools_cost = tools,
          annual_cost_current = current, automation_percentage = automation,
          complexity_score = score, implementation_cost = impl,
          monthly_ai_cost = monthly, annual_ai_cost = annual_ai,
          hours_automated_weekly = automated, annual_labor_savings = labor_savings,
          annual_cost_with_ai = with_ai, annual_savings = savings,
          roi_percentage = roi, breakeven_months = breakeven, risk_level = rl,
          recommendation = rec, next_steps = next_steps_of rec,
          industry_note = industry_note_of (industry inp)\<rparr>)"

text \<open>
  The handler answers 400 (\<open>Inl InvalidInput\<close>) when the process name is missing or empty,
  or the hours or the hourly cost are zero; otherwise the projection is computed.
\<close>

definition calculate_roi :: "projection_input \<Rightarrow> error + projection_result" where
  "calculate_roi inp =
     (case process_name inp of
        None \<Rightarrow> Inl InvalidInput
      | Some name \<Rightarrow>
          if name = [] \<or> hours_per_week inp = 0 \<or> hourly_cost inp = 0 then Inl InvalidInput
          else Inr (projection inp name))"

subsection \<open>The store\<close>

text \<open>
  The three tables the learning engine reads and writes, with the columns it uses; the
  timestamps (\<^verbatim>\<open>NOW()\<close>) are left out. A row of \<^verbatim>\<open>roi_projections\<close> is written by the
  handler only, so its two amounts are numbers; a string column may hold \<^verbatim>\<open>NULL\<close>.
\<close>

record projection_row =
  row_industry :: "string option"
  row_process_name :: "string option"
  row_annual_savings :: rat
  row_roi_percentage :: rat

datatype pattern_type = industry_roi | process_savings | high_value

text \<open>
  The column \<^verbatim>\<open>pattern_data\<close> holds \<^verbatim>\<open>json.dumps\<close> of one of three dictionaries:
  \<^verbatim>\<open>{'industry': i}\<close>, \<^verbatim>\<open>{'process': p}\<close> and the constant
  \<^verbatim>\<open>{'type': 'high_value', 'threshold': 50000}\<close>. Two such texts are equal exactly when
  they come from the same shape and the same string.
\<close>

datatype pattern_data = IndustryKey string | ProcessKey string | HighValueKey

text \<open>
  \<^verbatim>\<open>frequency\<close> starts at 1 and is only ever incremented, so it is a natural number.
  The averages are exact rationals, as the amounts are.
\<close>

record pattern =
  frequency :: nat
  avg_savings :: rat
  avg_roi :: rat

type_synonym patterns = "pattern_type \<times> pattern_data \<rightharpoonup> pattern"

datatype insight_type = best_roi_process | best_savings_industry

text \<open>
  An insight row: its type, its confidence and the four values of \<^verbatim>\<open>supporting_data\<close>.
  \<^verbatim>\<open>insight_text\<close> is a formatted rendering of the same four values and is not kept.
\<close>

record insight =
  insight_kind :: insight_type
  confidence :: rat
  subject :: "string option"
  sup_avg_roi :: rat
  sup_avg_savings :: rat
  sup_frequency :: nat

record db =
  roi_projections :: "projection_row list"
  roi_patterns :: patterns
  roi_insights :: "insight list"

subsection \<open>The insight generator (\<^verbatim>\<open>analyze_patterns\<close>)\<close>

text \<open>One row of a \<^verbatim>\<open>GROUP BY\<close> result: the key, \<^verbatim>\<open>COUNT(*)\<close> and the two \<^verbatim>\<open>AVG\<close>s.\<close>

record group_row =
  g_key :: "string option"
  g_count :: nat
  g_avg_savings :: rat
  g_avg_roi :: rat

definition avg :: "rat list \<Rightarrow> rat" where
  "avg xs = sum_list xs / of_nat (length xs)"

text \<open>
  \<^verbatim>\<open>SELECT key, COUNT(*), AVG(annual_savings), AVG(roi_percentage) ... GROUP BY key\<close>
  over rows given as (key, savings, roi): one group for each distinct key (\<^verbatim>\<open>NULL\<close> keys
  form one group).
\<close>

definition group_of :: "(string option \<times> rat \<times> rat) list \<Rightarrow> string option \<Rightarrow> group_row" where
  "group_of rows k =
     (let members = filter (\<lambda>r. fst r = k) rows
      in \<lparr>g_key = k, g_count = length members,
          g_avg_savings = avg (map (\<lambda>r. fst (snd r)) members),
          g_avg_roi = avg (map (\<lambda>r. snd (snd r)) members)\<rparr>)"

definition group_by :: "(string option \<times> rat \<times> rat) list \<Rightarrow> group_row list" where
  "group_by rows = map (group_of rows) (remdups (map fst rows))"

text \<open>
  \<^verbatim>\<open>HAVING COUNT(*) >= 3 ORDER BY f DESC LIMIT 5\<close>. SQL leaves the order of rows with
  equal \<^verbatim>\<open>f\<close> open; the model sorts stably.
\<close>

definition top5 :: "(group_row \<Rightarrow> rat) \<Rightarrow> group_row list \<Rightarrow> group_row list" where
  "top5 f gs = take 5 (sort_key (\<lambda>g. - f g) (filter (\<lambda>g. g_count g \<ge> 3) gs))"

definition process_rows :: "projection_row list \<Rightarrow> (string option \<times> rat \<times> rat) list" where
  "process_rows rows =
     map (\<lambda>r. (row_process_name r, row_annual_savings r, row_roi_percentage r)) rows"

text \<open>\<^verbatim>\<open>WHERE industry IS NOT NULL\<close>.\<close>

definition industry_rows :: "projection_row list \<Rightarrow> (string option \<times> rat \<times> rat) list" where
  "industry_rows rows =
     map (\<lambda>r. (row_industry r, row_annual_savings r, row_roi_percentage r))
       (filter (\<lambda>r. row_industry r \<noteq> None) rows)"

definition top_processes :: "db \<Rightarrow> group_row list" where
  "top_processes d = top5 g_avg_roi (group_by (process_rows (roi_projections d)))"

definition top_industries :: "db \<Rightarrow> group_row list" where
  "top_industries d = top5 g_avg_savings (group_by (industry_rows (roi_projections d)))"

definition insight_of :: "insight_type \<Rightarrow> rat \<Rightarrow> group_row \<Rightarrow> insight" where
  "insight_of t c g =
     \<lparr>insight_kind = t, confidence = c, subject = g_key g, sup_avg_roi = g_avg_roi g,
      sup_avg_savings = g_avg_savings g, sup_frequency = g_count g\<rparr>"

definition analyze_patterns :: "db \<Rightarrow> db" where
  "analyze_patterns d =
     (let d1 = (case top_processes d of
                  [] \<Rightarrow> d
                | best_process # _ \<Rightarrow>
                    d\<lparr>roi_insights :=
                        roi_insights d @ [insight_of best_roi_process (95 / 100) best_process]\<rparr>);
          d2 = (case top_industries d of
                  [] \<Rightarrow> d1
                | best_industry # _ \<Rightarrow>
                    d1\<lparr>roi_insights :=
                         roi_insights d1 @
                         [insight_of best_savings_industry (90 / 100) best_industry]\<rparr>)
      in d2)"

definition check_analysis_trigger :: "db \<Rightarrow> db" where
  "check_analysis_trigger d =
     (if length (roi_projections d) mod 10 = 0 then analyze_patterns d else d)"

subsection \<open>The pattern aggregator (\<^verbatim>\<open>log_patterns\<close>)\<close>

text \<open>
  \<^verbatim>\<open>INSERT ... VALUES (t, k, 1, s, r) ON CONFLICT (pattern_type, pattern_data) DO UPDATE\<close>:
  a new record with frequency 1, or the existing record with its frequency incremented and
  both averages recomputed from the old average, the old frequency and the new value.
\<close>

definition upsert :: "pattern_type \<Rightarrow> pattern_data \<Rightarrow> rat \<Rightarrow> rat \<Rightarrow> patterns \<Rightarrow> patterns" where
  "upsert t k s r tbl =
     (case tbl (t, k) of
        None \<Rightarrow> tbl((t, k) \<mapsto> \<lparr>frequency = 1, avg_savings = s, avg_roi = r\<rparr>)
      | Some p \<Rightarrow>
          tbl((t, k) \<mapsto>
            \<lparr>frequency = frequency p + 1,
             avg_savings = (avg_savings p * of_nat (frequency p) + s) / of_nat (frequency p + 1),
             avg_roi = (avg_roi p * of_nat (frequency p) + r) / of_nat (frequency p + 1)\<rparr>))"

text \<open>
  The argument of \<^verbatim>\<open>log_patterns\<close>. The two strings are read with \<^verbatim>\<open>.get\<close> and may be
  \<^verbatim>\<open>None\<close>; the two amounts are the numbers the handler computed.
\<close>

record projection_data =
  pd_industry :: "string option"
  pd_process_name :: "string option"
  pd_annual_savings :: rat
  pd_roi_percentage :: rat

text \<open>Python truthiness of an optional string: neither \<^verbatim>\<open>None\<close> nor empty.\<close>

definition truthy :: "string option \<Rightarrow> bool" where
  "truthy v = (case v of None \<Rightarrow> False | Some s \<Rightarrow> s \<noteq> [])"

definition log_patterns :: "db \<Rightarrow> projection_data \<Rightarrow> db" where
  "log_patterns d pd =
     (let s = pd_annual_savings pd;
          r = pd_roi_percentage pd;
          tbl = roi_patterns d;
          tbl = (if truthy (pd_industry pd) \<and> s \<noteq> 0 \<and> r \<noteq> 0
                 then upsert industry_roi (IndustryKey (the (pd_industry pd))) s r tbl else tbl);
          tbl = (if truthy (pd_process_name pd) \<and> s \<noteq> 0
                 then upsert process_savings (ProcessKey (the (pd_process_name pd))) s r tbl
                 else tbl);
          tbl = (if s \<noteq> 0 \<and> s > 50000 then upsert high_value HighValueKey s r tbl else tbl)
      in check_analysis_trigger (d\<lparr>roi_patterns := tbl\<rparr>))"

text \<open>
  The writes of the handler after a projection is computed: the row appended to
  \<^verbatim>\<open>roi_projections\<close>, then \<^verbatim>\<open>log_patterns\<close> on the four values the handler passes.
  (The session row is written to a table the engine never reads.)
\<close>

definition projection_data_of :: "projection_input \<Rightarrow> projection_result \<Rightarrow> projection_data" where
  "projection_data_of inp res =
     \<lparr>pd_industry = industry inp, pd_process_name = process_name inp,
      pd_annual_savings = annual_savings res, pd_roi_percentage = roi_percentage res\<rparr>"

definition store_projection :: "db \<Rightarrow> projection_input \<Rightarrow> projection_result \<Rightarrow> db" where
  "store_projection d inp res =
     log_patterns
       (d\<lparr>roi_projections := roi_projections d @
            [\<lparr>row_industry = industry inp, row_process_name = process_name inp,
              row_annual_savings = annual_savings res,
              row_roi_percentage = roi_percentage res\<rparr>]\<rparr>)
       (projection_data_of inp res)"

subsection \<open>Observations and their summaries\<close>

text \<open>
  An observation is what one upsert merges: the key of the pattern record, the savings and
  the ROI.
\<close>

type_synonym observation = "(pattern_type \<times> pattern_data) \<times> rat \<times> rat"

definition merge_observation :: "observation \<Rightarrow> patterns \<Rightarrow> patterns" where
  "merge_observation ob tbl =
     upsert (fst (fst ob)) (snd (fst ob)) (fst (snd ob)) (snd (snd ob)) tbl"

text \<open>The (savings, ROI) pairs of the observations with a given key, in order.\<close>

definition matching :: "pattern_type \<times> pattern_data \<Rightarrow> observation list \<Rightarrow> (rat \<times> rat) list" where
  "matching key obs = map snd (filter (\<lambda>ob. fst ob = key) obs)"

text \<open>
  The pattern record the specification asks for after a list of (savings, ROI) pairs has
  been folded under one key: none for no pair, otherwise the number of pairs and the
  arithmetic means of the two components.
\<close>

definition summary :: "(rat \<times> rat) list \<Rightarrow> pattern option" where
  "summary xs =
     (if xs = [] then None
      else Some \<lparr>frequency = length xs, avg_savings = avg (map fst xs),
                 avg_roi = avg (map snd xs)\<rparr>)"

text \<open>
  The observations of one projection as the specification lists them: one keyed by the
  industry whenever an industry is present, one keyed by the process name always, and the
  high-value one exactly when the annual savings exceed 50000.
\<close>

definition claimed_observations :: "projection_data \<Rightarrow> observation list" where
  "claimed_observations pd =
     (case pd_industry pd of
        None \<Rightarrow> []
      | Some i \<Rightarrow> [((industry_roi, IndustryKey i), pd_annual_savings pd, pd_roi_percentage pd)]) @
     (case pd_process_name pd of
        None \<Rightarrow> []
      | Some n \<Rightarrow> [((process_savings, ProcessKey n), pd_annual_savings pd, pd_roi_percentage pd)]) @
     (if pd_annual_savings pd > 50000
      then [((high_value, HighValueKey), pd_annual_savings pd, pd_roi_percentage pd)] else [])"

text \<open>
  The observations of one projection that pass the guards of \<^verbatim>\<open>log_patterns\<close>, which
  test their operands for truthiness: the industry one needs a non-empty industry and
  non-zero savings and ROI, the process one a non-empty process name and non-zero savings,
  the high-value one annual savings above 50000.
\<close>

definition logged_observations :: "projection_data \<Rightarrow> observation list" where
  "logged_observations pd =
     (case pd_industry pd of
        None \<Rightarrow> []
      | Some i \<Rightarrow>
          if i \<noteq> [] \<and> pd_annual_savings pd \<noteq> 0 \<and> pd_roi_percentage pd \<noteq> 0
          then [((industry_roi, IndustryKey i), pd_annual_savings pd, pd_roi_percentage pd)]
          else []) @
     (case pd_process_name pd of
        None \<Rightarrow> []
      | Some n \<Rightarrow>
          if n \<noteq> [] \<and> pd_annual_savings pd \<noteq> 0
          then [((process_savings, ProcessKey n), pd_annual_savings pd, pd_roi_percentage pd)]
          else []) @
     (if pd_annual_savings pd > 50000
      then [((high_value, HighValueKey), pd_annual_savings pd, pd_roi_percentage pd)] else [])"

definition empty_db :: db where
  "empty_db = \<lparr>roi_projections = [], roi_patterns = Map.empty, roi_insights = []\<rparr>"

subsection \<open>Group sizes and example stores\<close>

text \<open>
  The number of recorded projections with a given process name, and with a given (non-null)
  industry: the sizes of the groups the two rankings are built from.
\<close>

definition process_count :: "db \<Rightarrow> string option \<Rightarrow> nat" where
  "process_count d p = length (filter (\<lambda>r. row_process_name r = p) (roi_projections d))"

definition industry_count :: "db \<Rightarrow> string \<Rightarrow> nat" where
  "industry_count d i = length (filter (\<lambda>r. row_industry r = Some i) (roi_projections d))"

text \<open>The rows of a group, for the averages an insight reports.\<close>

definition process_group :: "db \<Rightarrow> string option \<Rightarrow> projection_row list" where
  "process_group d p = filter (\<lambda>r. row_process_name r = p) (roi_projections d)"

definition industry_group :: "db \<Rightarrow> string \<Rightarrow> projection_row list" where
  "industry_group d i = filter (\<lambda>r. row_industry r = Some i) (roi_projections d)"

text \<open>
  Three stores: two projections only; three projections of one process from three
  different industries; three projections of one industry for three different processes.
\<close>

definition two_rows_db :: db where
  "two_rows_db =
     \<lparr>roi_projections =
        [\<lparr>row_industry = Some ''Retail'', row_process_name = Some ''Filing'',
          row_annual_savings = 1000, row_roi_percentage = 10\<rparr>,
         \<lparr>row_industry = Some ''Retail'', row_process_name = Some ''Filing'',
          row_annual_savings = 3000, row_roi_percentage = 30\<rparr>],
      roi_patterns = Map.empty, roi_insights = []\<rparr>"

definition one_process_db :: db where
  "one_process_db =
     \<lparr>roi_projections =
        [\<lparr>row_industry = Some ''Retail'', row_process_name = Some ''Filing'',
          row_annual_savings = 1000, row_roi_percentage = 10\<rparr>,
         \<lparr>row_industry = Some ''Finance'', row_process_name = Some ''Filing'',
          row_annual_savings = 3000, row_roi_percentage = 30\<rparr>,
         \<lparr>row_industry = None, row_process_name = Some ''Filing'',
          row_annual_savings = 5000, row_roi_percentage = 50\<rparr>],
      roi_patterns = Map.empty, roi_insights = []\<rparr>"

definition one_industry_db :: db where
  "one_industry_db =
     \<lparr>roi_projections =
        [\<lparr>row_industry = Some ''Retail'', row_process_name = Some ''Filing'',
          row_annual_savings = 1000, row_roi_percentage = 10\<rparr>,
         \<lparr>row_industry = Some ''Retail'', row_process_name = Some ''Billing'',
          row_annual_savings = 3000, row_roi_percentage = 30\<rparr>,
         \<lparr>row_industry = Some ''Retail'', row_process_name = Some ''Payroll'',
          row_annual_savings = 5000, row_roi_percentage = 50\<rparr>],
      roi_patterns = Map.empty, roi_insights = []\<rparr>"

subsection \<open>Example requests\<close>

definition invoice_input :: projection_input where
  "invoice_input =
     \<lparr>company_name = ''Anonymous'', industry = None,
      process_name = Some ''Invoice Processing'', hours_per_week = 30, people_count = 2,
      hourly_cost = 40, current_tools_cost = 0\<rparr>"

definition invoice_result :: projection_result where
  "invoice_result =
     \<lparr>weekly_cost = 2400, annual_labor_cost = 124800, annual_tools_cost = 0,
      annual_cost_current = 124800, automation_percentage = 13 / 20, complexity_score = 0,
      implementation_cost = 8000, monthly_ai_cost = 400, annual_ai_cost = 4800,
      hours_automated_weekly = 39 / 2, annual_labor_savings = 81120,
      annual_cost_with_ai = 4800, annual_savings = 120000, roi_percentage = 1400,
      breakeven_months = 1, risk_level = Low, recommendation = Strong,
      next_steps = next_steps_of Strong, industry_note = ''''\<rparr>"

definition filing_input :: projection_input where
  "filing_input =
     \<lparr>company_name = ''Anonymous'', industry = Some ''Retail'', process_name = Some ''Filing'',
      hours_per_week = 3, people_count = 1, hourly_cost = 10, current_tools_cost = 70\<rparr>"

definition filing_result :: projection_result where
  "filing_result =
     \<lparr>weekly_cost = 30, annual_labor_cost = 1560, annual_tools_cost = 840,
      annual_cost_current = 2400, automation_percentage = 13 / 20, complexity_score = 0,
      implementation_cost = 8000, monthly_ai_cost = 200, annual_ai_cost = 2400,
      hours_automated_weekly = 39 / 20, annual_labor_savings = 1014,
      annual_cost_with_ai = 2400, annual_savings = 0, roi_percentage = - 100,
      breakeven_months = 999, risk_level = High, recommendation = Concerns,
      next_steps = next_steps_of Concerns,
      industry_note =
        ''Note: Retail AI automation has proven ROI - fast implementation typical.''\<rparr>"

definition helpdesk_input :: projection_input where
  "helpdesk_input =
     \<lparr>company_name = ''Anonymous'', industry = Some ''Finance'',
      process_name = Some ''Customer Data Analysis'', hours_per_week = 45, people_count = 6,
      hourly_cost = 40, current_tools_cost = 100\<rparr>"

definition helpdesk_result :: projection_result where
  "helpdesk_result =
     \<lparr>weekly_cost = 10800, annual_labor_cost = 561600, annual_tools_cost = 1200,
      annual_cost_current = 562800, automation_percentage = 13 / 20, complexity_score = 6,
      implementation_cost = 18000, monthly_ai_cost = 800, annual_ai_cost = 9600,
      hours_automated_weekly = 117 / 4, annual_labor_savings = 365040,
      annual_cost_with_ai = 9600, annual_savings = 553200, roi_percentage = 8920 / 3,
      breakeven_months = 1, risk_level = Medium, recommendation = Strong,
      next_steps = next_steps_of Strong,
      industry_note =
        ''Note: Finance has compliance requirements that may add 20-30% to implementation cost and timeline.''\<rparr>"

definition ledger_input :: projection_input where
  "ledger_input =
     \<lparr>company_name = ''Anonymous'', industry = Some ''Legal'', process_name = Some ''Ledger'',
      hours_per_week = 4, people_count = 1, hourly_cost = 50, current_tools_cost = 0\<rparr>"

definition ledger_result :: projection_result where
  "ledger_result =
     \<lparr>weekly_cost = 200, annual_labor_cost = 10400, annual_tools_cost = 0,
      annual_cost_current = 10400, automation_percentage = 13 / 20, complexity_score = 0,
      implementation_cost = 8000, monthly_ai_cost = 200, annual_ai_cost = 2400,
      hours_automated_weekly = 13 / 5, annual_labor_savings = 6760,
      annual_cost_with_ai = 2400, annual_savings = 8000, roi_percentage = 0,
      breakeven_months = 12, risk_level = Low, recommendation = Concerns,
      next_steps = next_steps_of Concerns,
      industry_note =
        ''Note: Legal has compliance requirements that may add 20-30% to implementation cost and timeline.''\<rparr>"

text \<open>
  Three requests for the rounding of the break-even months. In the first two every
  intermediate value is a double and the product is a tie, 1.5 and 4.5. In the third every
  value up to the annual savings is a double as well, and the rounded quotient times 12 is
  the double 17.5, while the exact quotient times 12 lies just below 17.5.
\<close>

definition payroll_input :: projection_input where
  "payroll_input =
     \<lparr>company_name = ''Anonymous'', industry = None, process_name = Some ''Payroll'',
      hours_per_week = 10, people_count = 1, hourly_cost = 100, current_tools_cost = 1200\<rparr>"

definition payroll_result :: projection_result where
  "payroll_result =
     \<lparr>weekly_cost = 1000, annual_labor_cost = 52000, annual_tools_cost = 14400,
      annual_cost_current = 66400, automation_percentage = 13 / 20, complexity_score = 0,
      implementation_cost = 8000, monthly_ai_cost = 200, annual_ai_cost = 2400,
      hours_automated_weekly = 13 / 2, annual_labor_savings = 33800,
      annual_cost_with_ai = 2400, annual_savings = 64000, roi_percentage = 700,
      breakeven_months = 2, risk_level = Low, recommendation = Strong,
      next_steps = next_steps_of Strong, industry_note = ''''\<rparr>"

definition intake_input :: projection_input where
  "intake_input =
     \<lparr>company_name = ''Anonymous'', industry = None, process_name = Some ''Data Intake'',
      hours_per_week = 13, people_count = 10, hourly_cost = 5, current_tools_cost = 50\<rparr>"

definition intake_result :: projection_result where
  "intake_result =
     \<lparr>weekly_cost = 650, annual_labor_cost = 33800, annual_tools_cost = 600,
      annual_cost_current = 34400, automation_percentage = 13 / 20, complexity_score = 3,
      implementation_cost = 12000, monthly_ai_cost = 200, annual_ai_cost = 2400,
      hours_automated_weekly = 169 / 20, annual_labor_savings = 21970,
      annual_cost_with_ai = 2400, annual_savings = 32000, roi_percentage = 500 / 3,
      breakeven_months = 4, risk_level = Low, recommendation = Good,
      next_steps = next_steps_of Good, industry_note = ''''\<rparr>"

definition archive_input :: projection_input where
  "archive_input =
     \<lparr>company_name = ''Anonymous'', industry = None, process_name = Some ''Archive'',
      hours_per_week = 1, people_count = 1, hourly_cost = 1 / 1099511627776,
      current_tools_cost = 361268106269255 / 549755813888\<rparr>"

definition archive_result :: projection_result where
  "archive_result =
     \<lparr>weekly_cost = 1 / 1099511627776, annual_labor_cost = 13 / 274877906944,
      annual_tools_cost = 1083804318807765 / 137438953472,
      annual_cost_current = 2167608637615543 / 274877906944,
      automation_percentage = 13 / 20, complexity_score = 0, implementation_cost = 8000,
      monthly_ai_cost = 200, annual_ai_cost = 2400, hours_automated_weekly = 13 / 20,
      annual_labor_savings = 169 / 5497558138880, annual_cost_with_ai = 2400,
      annual_savings = 1507901660949943 / 274877906944,
      roi_percentage = - (691121594602057 / 21990232555520),
      breakeven_months = 18, risk_level = High, recommendation = Concerns,
      next_steps = next_steps_of Concerns, industry_note = ''''\<rparr>"

section \<open>Properties of the estimator\<close>

lemma calculate_roi_Inr:
  assumes "calculate_roi inp = Inr res"
  obtains name where "process_name inp = Some name" "name \<noteq> []"
    "hours_per_week inp \<noteq> 0" "hourly_cost inp \<noteq> 0" "res = projection inp name"
  using assms by (auto simp: calculate_roi_def split: option.splits if_splits)

lemma projection_fields:
  "complexity_score (projection inp name) =
     complexity (hours_per_week inp) (people_count inp) name"
  "implementation_cost (projection inp name) =
     implementation_cost_of (complexity_score (projection inp name))"
  "monthly_ai_cost (projection inp name) = monthly_ai_cost_of (hours_per_week inp)"
  "annual_ai_cost (projection inp name) = monthly_ai_cost (projection inp name) * 12"
  "automation_percentage (projection inp name) = 65 / 100"
  "annual_savings (projection inp name) =
     annual_cost_current (projection inp name) - of_int (annual_ai_cost (projection inp name))"
  "breakeven_months (projection inp name) =
     breakeven_of (implementation_cost (projection inp name))
       (annual_savings (projection inp name))"
  "risk_level (projection inp name) =
     risk_of (automation_percentage (projection inp name))
       (breakeven_months (projection inp name)) (complexity_score (projection inp name))
       (annual_savings (projection inp name)) (implementation_cost (projection inp name))"
  "industry_note (projection inp name) = industry_note_of (industry inp)"
  by (simp_all add: projection_def Let_def)

text \<open>\<open>py_round\<close> is a rounding: its result is at most one half away from its argument.\<close>

lemma py_round_nearest: "\<bar>of_int (py_round x) - x\<bar> \<le> 1 / 2"
proof -
  have "of_int \<lfloor>x\<rfloor> \<le> x" "x < of_int \<lfloor>x\<rfloor> + 1" by linarith+
  then show ?thesis by (auto simp: py_round_def Let_def)
qed

lemma py_round_of_int: "py_round (of_int n) = n"
  by (simp add: py_round_def)

text \<open>Ties go to the even neighbour, in both directions.\<close>

lemma py_round_ties:
  "py_round (1 / 2) = 0" "py_round (3 / 2) = 2" "py_round (5 / 2) = 2" "py_round (9 / 2) = 4"
  "py_round (35 / 2) = 18" "py_round (- (1 / 2)) = 0" "py_round (- (3 / 2)) = - 2"
  by code_simp+

text \<open>
  \<open>binade\<close> is the binary exponent, \<open>to_double\<close> is within half a spacing of its
  argument, and it leaves every double (an integer below \<open>2^53\<close> in magnitude times a
  power of two not below \<open>2^-1074\<close>) as it is.
\<close>

lemma pow2_bitlen:
  assumes "0 < (n::int)"
  shows "(2::rat) powi (bitlen n - 1) \<le> of_int n" and "of_int n < (2::rat) powi (bitlen n)"
proof -
  from assms have b: "2 ^ nat (bitlen n - 1) \<le> n" "n < 2 ^ nat (bitlen n)"
    using bitlen_bounds by blast+
  from assms have g: "bitlen n \<ge> 1"
    by (metis bitlen_eq_zero_iff bitlen_nonneg int_one_le_iff_zero_less not_less
        order.not_eq_order_implies_strict)
  have "(2::rat) powi (bitlen n - 1) = of_int (2 ^ nat (bitlen n - 1))"
    using g by (simp add: power_int_def)
  also have "\<dots> \<le> of_int n"
    using b(1) by (simp only: of_int_le_iff)
  finally show "(2::rat) powi (bitlen n - 1) \<le> of_int n" .
  have "(of_int n :: rat) < of_int (2 ^ nat (bitlen n))"
    using b(2) by (simp only: of_int_less_iff)
  also have "\<dots> = 2 powi (bitlen n)"
    using g by (simp add: power_int_def)
  finally show "of_int n < (2::rat) powi (bitlen n)" .
qed

lemma binade_bounds:
  assumes "x \<noteq> 0"
  shows "2 powi (binade x) \<le> \<bar>x\<bar> \<and> \<bar>x\<bar> < 2 powi (binade x + 1)"
proof -
  obtain p q where pq: "quotient_of \<bar>x\<bar> = (p, q)"
    by (cases "quotient_of \<bar>x\<bar>")
  then have q: "0 < q" and x: "\<bar>x\<bar> = of_int p / of_int q"
    by (simp_all add: quotient_of_denom_pos quotient_of_div)
  from assms have "0 < \<bar>x\<bar>" by simp
  with x q have p: "0 < p"
    by (simp add: zero_less_divide_iff)
  let ?k = "bitlen p - bitlen q"
  have qpos: "(0::rat) < of_int q" using q by simp
  have "of_int p < (2::rat) powi (bitlen p)" "(2::rat) powi (bitlen q - 1) \<le> of_int q"
    using pow2_bitlen p q by blast+
  then have "of_int p * (2::rat) powi (bitlen q - 1) < 2 powi (bitlen p) * of_int q"
    using p by (intro mult_less_le_imp_less) simp_all
  then have "\<bar>x\<bar> < 2 powi (bitlen p) / 2 powi (bitlen q - 1)"
    unfolding x using qpos by (simp add: field_simps)
  also have "\<dots> = 2 powi (?k + 1)"
  proof -
    have "?k + 1 = bitlen p - (bitlen q - 1)" by simp
    then show ?thesis
      by (simp only: power_int_diff [of "2::rat", simplified])
  qed
  finally have up: "\<bar>x\<bar> < 2 powi (?k + 1)" .
  have "(2::rat) powi (bitlen p - 1) \<le> of_int p" "of_int q < (2::rat) powi (bitlen q)"
    using pow2_bitlen p q by blast+
  then have "(2::rat) powi (bitlen p - 1) * of_int q \<le> of_int p * 2 powi (bitlen q)"
    using qpos p by (intro mult_mono) simp_all
  then have "2 powi (bitlen p - 1) / 2 powi (bitlen q) \<le> \<bar>x\<bar>"
    unfolding x using qpos by (simp add: field_simps)
  moreover have "(2::rat) powi (bitlen p - 1) / 2 powi (bitlen q) = 2 powi (?k - 1)"
  proof -
    have "?k - 1 = bitlen p - 1 - bitlen q" by simp
    then show ?thesis
      by (simp only: power_int_diff [of "2::rat", simplified])
  qed
  ultimately have lo: "2 powi (?k - 1) \<le> \<bar>x\<bar>" by simp
  show ?thesis
  proof (cases "2 powi ?k \<le> \<bar>x\<bar>")
    case True
    then have "binade x = ?k"
      by (simp add: binade_def pq)
    with True up show ?thesis by simp
  next
    case False
    then have "binade x = ?k - 1"
      by (simp add: binade_def pq)
    with False lo show ?thesis by simp
  qed
qed

lemma to_double_nearest:
  "\<bar>to_double x - x\<bar> \<le> 2 powi (max (binade x) (- 1022) - 52) / 2"
proof (cases "x = 0")
  case True
  then show ?thesis by (simp add: to_double_def)
next
  case False
  let ?u = "(2::rat) powi (max (binade x) (- 1022) - 52)"
  have u: "0 < ?u" by simp
  have "\<bar>of_int (py_round (x / ?u)) - x / ?u\<bar> \<le> 1 / 2"
    by (rule py_round_nearest)
  then have "\<bar>of_int (py_round (x / ?u)) - x / ?u\<bar> * ?u \<le> 1 / 2 * ?u"
    using u by (intro mult_right_mono) simp_all
  moreover have "\<bar>of_int (py_round (x / ?u)) - x / ?u\<bar> * ?u =
                 \<bar>of_int (py_round (x / ?u)) * ?u - x\<bar>"
  proof -
    have "\<bar>of_int (py_round (x / ?u)) - x / ?u\<bar> * ?u =
          \<bar>(of_int (py_round (x / ?u)) - x / ?u) * ?u\<bar>"
      using u by (simp add: abs_mult)
    also have "(of_int (py_round (x / ?u)) - x / ?u) * ?u = of_int (py_round (x / ?u)) * ?u - x"
      using u by (simp add: left_diff_distrib)
    finally show ?thesis .
  qed
  ultimately show ?thesis
    using False by (simp add: to_double_def Let_def)
qed

lemma to_double_exact:
  assumes "\<bar>m\<bar> < 2 ^ 53" and "- 1074 \<le> e"
  shows "to_double (of_int m * 2 powi e) = of_int m * 2 powi e"
proof (cases "m = 0")
  case True
  then show ?thesis by (simp add: to_double_def)
next
  case False
  let ?x = "of_int m * (2::rat) powi e"
  have x0: "?x \<noteq> 0" using False by simp
  let ?b = "binade ?x"
  let ?u = "max ?b (- 1022) - 52"
  from binade_bounds [OF x0] have "2 powi ?b \<le> \<bar>?x\<bar>" by blast
  also have "\<bar>?x\<bar> = of_int \<bar>m\<bar> * 2 powi e"
    by (simp add: abs_mult)
  also have "\<dots> < of_int (2 ^ 53) * 2 powi e"
    using assms(1)
    by (intro mult_strict_right_mono)
       (simp_all only: of_int_less_iff zero_less_power_int zero_less_numeral)
  also have "\<dots> = 2 powi (53 + e)"
    by (simp add: power_int_add)
  finally have "(2::rat) powi ?b < 2 powi (53 + e)" .
  then have "?b < 53 + e"
    using power_int_increasing [of "53 + e" ?b "2::rat"] by (cases "?b < 53 + e") simp_all
  with assms(2) have ue: "?u \<le> e" by simp
  then obtain d where "e = ?u + int d"
    by (metis zle_iff_zadd)
  then have d: "e - ?u = int d"
    by simp
  have "?x / 2 powi ?u = of_int m * 2 powi (e - ?u)"
    by (simp add: power_int_diff)
  also have "\<dots> = of_int m * 2 powi (int d)"
    by (simp only: d)
  also have "\<dots> = of_int (m * 2 ^ d)"
    by simp
  finally have q: "?x / 2 powi ?u = of_int (m * 2 ^ d)" .
  have "to_double ?x = of_int (py_round (?x / 2 powi ?u)) * 2 powi ?u"
    using x0 by (simp add: to_double_def Let_def)
  also have "\<dots> = of_int (m * 2 ^ d) * 2 powi ?u"
    by (simp only: q py_round_of_int)
  also have "\<dots> = ?x / 2 powi ?u * 2 powi ?u"
    by (simp only: q)
  also have "\<dots> = ?x"
    by simp
  finally show ?thesis .
qed

text \<open>
  The floating-point quotient and product at the savings of the third rounding example:
  the doubles are 1.4583333333333333 and 17.5, and the break-even is 18 months. In exact
  arithmetic the product is below 17.5 and would round to 17.
\<close>

lemma breakeven_of_double_rounding:
  "to_double (8000 / (1507901660949943 / 274877906944)) = 6567749456581973 / 4503599627370496"
  "to_double (6567749456581973 / 4503599627370496 * 12) = 35 / 2"
  "breakeven_of 8000 (1507901660949943 / 274877906944) = 18"
  "py_round (8000 / (1507901660949943 / 274877906944) * 12) = 17"
  by code_simp+

lemma invoice_run: "calculate_roi invoice_input = Inr invoice_result"
  by code_simp

lemma filing_run: "calculate_roi filing_input = Inr filing_result"
  by code_simp

lemma helpdesk_run: "calculate_roi helpdesk_input = Inr helpdesk_result"
  by code_simp

text \<open>
  Claim C2, as amended. The request with 30 hours a week, 2 people, an hourly cost of 40, no
  tool cost and the process name "Invoice Processing" is accepted, and its projection has
  weekly cost 2400, annual labour cost 124800, current annual cost 124800, complexity score
  0, implementation cost 8000, monthly AI cost 400 (30 hours lie in the tier from 20 to 39),
  annual AI cost 4800, annual savings 120000, ROI 1400 percent, break-even after 1 month,
  risk Low and the strongest recommendation.
\<close>

theorem invoice_example_amended:
  "calculate_roi invoice_input = Inr invoice_result \<and>
   weekly_cost invoice_result = 2400 \<and>
   annual_labor_cost invoice_result = 124800 \<and>
   annual_cost_current invoice_result = 124800 \<and>
   complexity_score invoice_result = 0 \<and>
   implementation_cost invoice_result = 8000 \<and>
   monthly_ai_cost invoice_result = 400 \<and>
   annual_ai_cost invoice_result = 4800 \<and>
   annual_savings invoice_result = 120000 \<and>
   roi_percentage invoice_result = 1400 \<and>
   breakeven_months invoice_result = 1 \<and>
   risk_level invoice_result = Low \<and>
   recommendation invoice_result = Strong"
proof -
  have "calculate_roi invoice_input = Inr invoice_result"
    by code_simp
  then show ?thesis
    by (simp add: invoice_result_def)
qed

text \<open>
  Claim C2, as stated, asks for a monthly AI cost of 200, an annual AI cost of 2400, annual
  savings of 122400 and an ROI of 1430 percent at that request. The projection computed
  there does not have these values.
\<close>

theorem invoice_example_counterexample:
  "calculate_roi invoice_input = Inr invoice_result \<and>
   \<not> (weekly_cost invoice_result = 2400 \<and>
      annual_labor_cost invoice_result = 124800 \<and>
      annual_cost_current invoice_result = 124800 \<and>
      complexity_score invoice_result = 0 \<and>
      implementation_cost invoice_result = 8000 \<and>
      monthly_ai_cost invoice_result = 200 \<and>
      annual_ai_cost invoice_result = 2400 \<and>
      annual_savings invoice_result = 122400 \<and>
      roi_percentage invoice_result = 1430 \<and>
      breakeven_months invoice_result = 1 \<and>
      risk_level invoice_result = Low \<and>
      recommendation invoice_result = Strong)"
proof -
  have "calculate_roi invoice_input = Inr invoice_result"
    by code_simp
  moreover have "monthly_ai_cost invoice_result \<noteq> 200"
    by (simp add: invoice_result_def)
  ultimately show ?thesis
    by blast
qed

text \<open>
  Claim C3. For every accepted request the monthly AI cost is 200 below 20 hours a week, 400
  from 20 to 39 hours and 800 from 40 hours on, and the annual AI cost is twelve times the
  monthly cost.
\<close>

theorem ai_cost_tiers:
  assumes "calculate_roi inp = Inr res"
  shows "monthly_ai_cost res =
           (if hours_per_week inp < 20 then 200
            else if 20 \<le> hours_per_week inp \<and> hours_per_week inp \<le> 39 then 400
            else 800) \<and>
         annual_ai_cost res = 12 * monthly_ai_cost res"
proof -
  from assms obtain name where "res = projection inp name"
    by (rule calculate_roi_Inr)
  then show ?thesis
    by (simp add: projection_fields monthly_ai_cost_of_def)
qed

text \<open>
  Claim C3 at three accepted requests, one in each tier (3, 30 and 45 hours a week).
\<close>

theorem ai_cost_tiers_witness:
  "calculate_roi filing_input = Inr filing_result \<and> hours_per_week filing_input < 20 \<and>
   monthly_ai_cost filing_result = 200 \<and> annual_ai_cost filing_result = 2400 \<and>
   calculate_roi invoice_input = Inr invoice_result \<and> hours_per_week invoice_input = 30 \<and>
   monthly_ai_cost invoice_result = 400 \<and> annual_ai_cost invoice_result = 4800 \<and>
   calculate_roi helpdesk_input = Inr helpdesk_result \<and> hours_per_week helpdesk_input = 45 \<and>
   monthly_ai_cost helpdesk_result = 800 \<and> annual_ai_cost helpdesk_result = 9600"
proof -
  have f: "calculate_roi filing_input = Inr filing_result"
    and i: "calculate_roi invoice_input = Inr invoice_result"
    and h: "calculate_roi helpdesk_input = Inr helpdesk_result"
    by code_simp+
  from ai_cost_tiers [OF f] ai_cost_tiers [OF i] ai_cost_tiers [OF h] f i h show ?thesis
    by (simp add: filing_input_def invoice_input_def helpdesk_input_def)
qed

text \<open>
  Claim C4. For every accepted request, positive annual savings give the break-even months
  \<open>max(1, round(implementation_cost / annual_savings * 12))\<close>, the division and the
  multiplication being the floating-point operations of the code and \<open>round\<close> rounding a
  tie to the even neighbour; annual savings of zero or less give exactly 999, whatever the
  other values are.
\<close>

theorem breakeven_rule:
  assumes "calculate_roi inp = Inr res"
  shows "(annual_savings res > 0 \<longrightarrow>
            breakeven_months res =
              max 1 (py_round (to_double
                (to_double (of_int (implementation_cost res) / annual_savings res) * 12)))) \<and>
         (annual_savings res \<le> 0 \<longrightarrow> breakeven_months res = 999)"
proof -
  from assms obtain name where "res = projection inp name"
    by (rule calculate_roi_Inr)
  then have "breakeven_months res = breakeven_of (implementation_cost res) (annual_savings res)"
    by (simp add: projection_fields)
  then show ?thesis
    by (simp add: breakeven_of_def)
qed

text \<open>
  Claim C4 at four accepted requests: savings 64000 at cost 8000 (the product is the tie 1.5,
  rounded up to the even 2); savings 32000 at cost 12000 (the tie 4.5, rounded down to the
  even 4); savings 5485.714285714286 at cost 8000 (the floating-point product is 17.5,
  rounded to 18); savings zero (999).
\<close>

theorem breakeven_rule_witness:
  "calculate_roi payroll_input = Inr payroll_result \<and>
   annual_savings payroll_result = 64000 \<and> implementation_cost payroll_result = 8000 \<and>
   to_double (to_double (8000 / 64000) * 12) = 3 / 2 \<and>
   breakeven_months payroll_result = 2 \<and>
   calculate_roi intake_input = Inr intake_result \<and>
   annual_savings intake_result = 32000 \<and> implementation_cost intake_result = 12000 \<and>
   to_double (to_double (12000 / 32000) * 12) = 9 / 2 \<and>
   breakeven_months intake_result = 4 \<and>
   calculate_roi archive_input = Inr archive_result \<and>
   annual_savings archive_result = 1507901660949943 / 274877906944 \<and>
   implementation_cost archive_result = 8000 \<and>
   to_double (to_double (8000 / (1507901660949943 / 274877906944)) * 12) = 35 / 2 \<and>
   breakeven_months archive_result = 18 \<and>
   calculate_roi filing_input = Inr filing_result \<and> annual_savings filing_result = 0 \<and>
   breakeven_months filing_result = 999"
proof -
  have p: "calculate_roi payroll_input = Inr payroll_result"
    and i: "calculate_roi intake_input = Inr intake_result"
    and a: "calculate_roi archive_input = Inr archive_result"
    and f: "calculate_roi filing_input = Inr filing_result"
    by code_simp+
  have d1: "to_double (to_double (8000 / 64000) * 12) = 3 / 2"
    and d2: "to_double (to_double (12000 / 32000) * 12) = 9 / 2"
    and d3: "to_double (to_double (8000 / (1507901660949943 / 274877906944)) * 12) = 35 / 2"
    by code_simp+
  have s1: "annual_savings payroll_result = 64000"
    and c1: "implementation_cost payroll_result = 8000"
    and s2: "annual_savings intake_result = 32000"
    and c2: "implementation_cost intake_result = 12000"
    and s3: "annual_savings archive_result = 1507901660949943 / 274877906944"
    and c3: "implementation_cost archive_result = 8000"
    and s4: "annual_savings filing_result = 0"
    by (simp_all add: payroll_result_def intake_result_def archive_result_def
        filing_result_def)
  have pos: "annual_savings payroll_result > 0" "annual_savings intake_result > 0"
    "annual_savings archive_result > 0" "annual_savings filing_result \<le> 0"
    by (simp_all add: payroll_result_def intake_result_def archive_result_def
        filing_result_def)
  have e1: "max 1 (py_round (to_double (to_double
              (of_int (implementation_cost payroll_result) / annual_savings payroll_result)
              * 12))) = 2"
    and e2: "max 1 (py_round (to_double (to_double
              (of_int (implementation_cost intake_result) / annual_savings intake_result)
              * 12))) = 4"
    and e3: "max 1 (py_round (to_double (to_double
              (of_int (implementation_cost archive_result) / annual_savings archive_result)
              * 12))) = 18"
    by code_simp+
  from breakeven_rule [OF p] pos(1) have "breakeven_months payroll_result =
      max 1 (py_round (to_double (to_double
        (of_int (implementation_cost payroll_result) / annual_savings payroll_result) * 12)))"
    by blast
  with e1 have b1: "breakeven_months payroll_result = 2"
    by (simp only:)
  from breakeven_rule [OF i] pos(2) have "breakeven_months intake_result =
      max 1 (py_round (to_double (to_double
        (of_int (implementation_cost intake_result) / annual_savings intake_result) * 12)))"
    by blast
  with e2 have b2: "breakeven_months intake_result = 4"
    by (simp only:)
  from breakeven_rule [OF a] pos(3) have "breakeven_months archive_result =
      max 1 (py_round (to_double (to_double
        (of_int (implementation_cost archive_result) / annual_savings archive_result) * 12)))"
    by blast
  with e3 have b3: "breakeven_months archive_result = 18"
    by (simp only:)
  from breakeven_rule [OF f] pos(4) have b4: "breakeven_months filing_result = 999"
    by blast
  show ?thesis
    by (intro conjI) (fact p i a f d1 d2 d3 s1 s2 s3 s4 c1 c2 c3 b1 b2 b3 b4)+
qed

text \<open>
  Claim C5. For every accepted request the risk level is given by the first rule that
  applies: automation fraction above 0.8 gives High; else break-even above 18 months gives
  High; else complexity score above 5 gives Medium; else annual savings below the
  implementation cost give High; else Low.
\<close>

theorem risk_rules:
  assumes "calculate_roi inp = Inr res"
  shows "risk_level res =
           (if automation_percentage res > 8 / 10 then High
            else if breakeven_months res > 18 then High
            else if complexity_score res > 5 then Medium
            else if annual_savings res < of_int (implementation_cost res) then High
            else Low)"
proof -
  from assms obtain name where "res = projection inp name"
    by (rule calculate_roi_Inr)
  then have "risk_level res =
      risk_of (automation_percentage res) (breakeven_months res) (complexity_score res)
        (annual_savings res) (implementation_cost res)"
    by (simp only: projection_fields)
  then show ?thesis
    by (simp only: risk_of_def)
qed

text \<open>
  Claim C5 at three accepted requests, with risk Low, High and Medium.
\<close>

theorem risk_rules_witness:
  "calculate_roi invoice_input = Inr invoice_result \<and> risk_level invoice_result = Low \<and>
   calculate_roi filing_input = Inr filing_result \<and> risk_level filing_result = High \<and>
   calculate_roi helpdesk_input = Inr helpdesk_result \<and> risk_level helpdesk_result = Medium"
proof -
  have i: "calculate_roi invoice_input = Inr invoice_result"
    and f: "calculate_roi filing_input = Inr filing_result"
    and h: "calculate_roi helpdesk_input = Inr helpdesk_result"
    by code_simp+
  from risk_rules [OF i] risk_rules [OF f] risk_rules [OF h] i f h show ?thesis
    by (simp add: invoice_result_def filing_result_def helpdesk_result_def)
qed

text \<open>
  Claim C10. The automation fraction of every accepted request is the constant 0.65, which
  is not above 0.8, so the first risk rule never applies: the risk level is decided by the
  break-even months, the complexity score and the comparison of the annual savings with the
  implementation cost alone.
\<close>

theorem automation_rule_unreachable:
  assumes "calculate_roi inp = Inr res"
  shows "automation_percentage res = 65 / 100 \<and>
         \<not> automation_percentage res > 8 / 10 \<and>
         risk_level res =
           (if breakeven_months res > 18 then High
            else if complexity_score res > 5 then Medium
            else if annual_savings res < of_int (implementation_cost res) then High
            else Low)"
proof -
  from assms obtain name where res: "res = projection inp name"
    by (rule calculate_roi_Inr)
  then have a: "automation_percentage res = 65 / 100"
    by (simp add: projection_fields)
  from res have "risk_level res =
      risk_of (automation_percentage res) (breakeven_months res) (complexity_score res)
        (annual_savings res) (implementation_cost res)"
    by (simp only: projection_fields)
  with a show ?thesis
    by (simp add: risk_of_def)
qed

text \<open>
  Claim C10 at two accepted requests: one is High because of its break-even months, the
  other Medium because of its complexity score.
\<close>

theorem automation_rule_unreachable_witness:
  "calculate_roi filing_input = Inr filing_result \<and>
   automation_percentage filing_result = 65 / 100 \<and>
   breakeven_months filing_result > 18 \<and> risk_level filing_result = High \<and>
   calculate_roi helpdesk_input = Inr helpdesk_result \<and>
   automation_percentage helpdesk_result = 65 / 100 \<and>
   complexity_score helpdesk_result > 5 \<and> risk_level helpdesk_result = Medium"
proof -
  have f: "calculate_roi filing_input = Inr filing_result"
    and h: "calculate_roi helpdesk_input = Inr helpdesk_result"
    by code_simp+
  from automation_rule_unreachable [OF f] automation_rule_unreachable [OF h] f h
  show ?thesis
    by (simp add: filing_result_def helpdesk_result_def)
qed

text \<open>\<open>str_in\<close> is the substring test: some prefix and some suffix surround the run.\<close>

lemma starts_with_iff: "starts_with sub s \<longleftrightarrow> (\<exists>post. s = sub @ post)"
  by (induction sub s rule: starts_with.induct) auto

lemma str_in_iff: "str_in sub s \<longleftrightarrow> (\<exists>pre post. s = pre @ sub @ post)"
proof (induction s)
  case Nil
  then show ?case by auto
next
  case (Cons d ds)
  have "(\<exists>pre post. d # ds = pre @ sub @ post) \<longleftrightarrow>
        (\<exists>post. d # ds = sub @ post) \<or> (\<exists>pre post. ds = pre @ sub @ post)"
  proof
    assume "\<exists>pre post. d # ds = pre @ sub @ post"
    then obtain pre post where e: "d # ds = pre @ sub @ post" by blast
    show "(\<exists>post. d # ds = sub @ post) \<or> (\<exists>pre post. ds = pre @ sub @ post)"
    proof (cases pre)
      case Nil
      with e show ?thesis by auto
    next
      case (Cons c cs)
      with e have "ds = cs @ sub @ post" by simp
      then show ?thesis by blast
    qed
  next
    assume "(\<exists>post. d # ds = sub @ post) \<or> (\<exists>pre post. ds = pre @ sub @ post)"
    then show "\<exists>pre post. d # ds = pre @ sub @ post"
    proof
      assume "\<exists>post. d # ds = sub @ post"
      then obtain post where "d # ds = [] @ sub @ post" by auto
      then show ?thesis by blast
    next
      assume "\<exists>pre post. ds = pre @ sub @ post"
      then obtain pre post where "d # ds = (d # pre) @ sub @ post" by auto
      then show ?thesis by blast
    qed
  qed
  with Cons show ?case
    by (simp only: str_in.simps starts_with_iff)
qed

lemma complexity_sum:
  "complexity h p name =
     (if h > 40 then 2 else 0) + (if p > 5 then 2 else 0) +
     (if str_in ''data'' (lower name) \<or> str_in ''analysis'' (lower name) then 1 else 0) +
     (if str_in ''customer'' (lower name) \<or> str_in ''support'' (lower name) then 1 else 0)"
  by (simp add: complexity_def)

text \<open>
  Claim C7. Take two accepted requests such that every one of the four triggering
  conditions (more than 40 hours a week; more than 5 people; a name containing "data" or
  "analysis"; a name containing "customer" or "support") that holds of the first holds of
  the second. Then the second's complexity score is at least the first's, and its
  implementation cost, one of 8000, 12000 and 18000, is not lower.
\<close>

theorem complexity_monotone:
  assumes "calculate_roi a = Inr ra" and "calculate_roi b = Inr rb"
    and "process_name a = Some na" and "process_name b = Some nb"
    and "hours_per_week a > 40 \<longrightarrow> hours_per_week b > 40"
    and "people_count a > 5 \<longrightarrow> people_count b > 5"
    and "str_in ''data'' (lower na) \<or> str_in ''analysis'' (lower na) \<longrightarrow>
         str_in ''data'' (lower nb) \<or> str_in ''analysis'' (lower nb)"
    and "str_in ''customer'' (lower na) \<or> str_in ''support'' (lower na) \<longrightarrow>
         str_in ''customer'' (lower nb) \<or> str_in ''support'' (lower nb)"
  shows "complexity_score ra \<le> complexity_score rb \<and>
         implementation_cost ra \<le> implementation_cost rb \<and>
         implementation_cost ra \<in> {8000, 12000, 18000} \<and>
         implementation_cost rb \<in> {8000, 12000, 18000}"
proof -
  from assms(1,3) have ra: "ra = projection a na"
    by (auto elim: calculate_roi_Inr)
  from assms(2,4) have rb: "rb = projection b nb"
    by (auto elim: calculate_roi_Inr)
  have "complexity (hours_per_week a) (people_count a) na \<le>
        complexity (hours_per_week b) (people_count b) nb"
    unfolding complexity_sum using assms(5-8)
    by (intro add_mono) auto
  with ra rb have le: "complexity_score ra \<le> complexity_score rb"
    by (simp add: projection_fields)
  from ra rb have "implementation_cost ra = implementation_cost_of (complexity_score ra)"
    "implementation_cost rb = implementation_cost_of (complexity_score rb)"
    by (simp_all only: projection_fields)
  with le show ?thesis
    by (simp add: implementation_cost_of_def)
qed

text \<open>
  Claim C7 at a request that triggers no condition and one that triggers all four.
\<close>

theorem complexity_monotone_witness:
  "calculate_roi invoice_input = Inr invoice_result \<and>
   calculate_roi helpdesk_input = Inr helpdesk_result \<and>
   complexity_score invoice_result = 0 \<and> complexity_score helpdesk_result = 6 \<and>
   complexity_score invoice_result \<le> complexity_score helpdesk_result \<and>
   implementation_cost invoice_result = 8000 \<and> implementation_cost helpdesk_result = 18000 \<and>
   implementation_cost invoice_result \<le> implementation_cost helpdesk_result"
proof -
  have i: "calculate_roi invoice_input = Inr invoice_result"
    and h: "calculate_roi helpdesk_input = Inr helpdesk_result"
    by code_simp+
  have ni: "process_name invoice_input = Some ''Invoice Processing''"
    and nh: "process_name helpdesk_input = Some ''Customer Data Analysis''"
    by (simp_all add: invoice_input_def helpdesk_input_def)
  have c1: "hours_per_week invoice_input > 40 \<longrightarrow> hours_per_week helpdesk_input > 40"
    and c2: "people_count invoice_input > 5 \<longrightarrow> people_count helpdesk_input > 5"
    by (simp_all add: invoice_input_def helpdesk_input_def)
  have c3: "str_in ''data'' (lower ''Invoice Processing'') \<or>
            str_in ''analysis'' (lower ''Invoice Processing'') \<longrightarrow>
            str_in ''data'' (lower ''Customer Data Analysis'') \<or>
            str_in ''analysis'' (lower ''Customer Data Analysis'')"
    by code_simp
  have c4: "str_in ''customer'' (lower ''Invoice Processing'') \<or>
            str_in ''support'' (lower ''Invoice Processing'') \<longrightarrow>
            str_in ''customer'' (lower ''Customer Data Analysis'') \<or>
            str_in ''support'' (lower ''Customer Data Analysis'')"
    by code_simp
  from complexity_monotone [OF i h ni nh c1 c2 c3 c4] i h show ?thesis
    by (simp add: invoice_result_def helpdesk_result_def)
qed

text \<open>
  Claim C9. For every accepted request the industry note is non-empty exactly when an
  industry is given and its lower-cased text is one of healthcare, finance, legal,
  logistics, manufacturing, retail and ecommerce; the first three give the compliance
  warning, the next two the conservative-projection note, the last two the fast-ROI note.
  With no industry, or any other industry, the note is empty.
\<close>

theorem industry_note_iff:
  assumes "calculate_roi inp = Inr res"
  shows "(industry_note res \<noteq> [] \<longleftrightarrow>
            (\<exists>i. industry inp = Some i \<and>
                 lower i \<in> {''healthcare'', ''finance'', ''legal'', ''logistics'',
                            ''manufacturing'', ''retail'', ''ecommerce''})) \<and>
         (\<forall>i. industry inp = Some i \<longrightarrow>
            (lower i \<in> {''healthcare'', ''finance'', ''legal''} \<longrightarrow>
               industry_note res = ''Note: '' @ i @
                 '' has compliance requirements that may add 20-30% to implementation cost and timeline.'') \<and>
            (lower i \<in> {''logistics'', ''manufacturing''} \<longrightarrow>
               industry_note res = ''Note: '' @ i @
                 '' automation typically sees 70-80% efficiency gains - your projection may be conservative.'') \<and>
            (lower i \<in> {''retail'', ''ecommerce''} \<longrightarrow>
               industry_note res = ''Note: '' @ i @
                 '' AI automation has proven ROI - fast implementation typical.''))"
proof -
  from assms obtain name where "res = projection inp name"
    by (rule calculate_roi_Inr)
  then have n: "industry_note res = industry_note_of (industry inp)"
    by (simp only: projection_fields)
  have e: "lower [] = []"
    by (simp add: lower_def)
  show ?thesis
    unfolding n industry_note_of_def
    by (cases "industry inp") (auto simp: e)
qed

text \<open>
  Claim C9 at a request from the industry "Retail" (fast-ROI note) and at a request with no
  industry (empty note).
\<close>

theorem industry_note_iff_witness:
  "calculate_roi filing_input = Inr filing_result \<and> industry filing_input = Some ''Retail'' \<and>
   lower ''Retail'' = ''retail'' \<and>
   industry_note filing_result =
     ''Note: Retail AI automation has proven ROI - fast implementation typical.'' \<and>
   calculate_roi invoice_input = Inr invoice_result \<and> industry invoice_input = None \<and>
   industry_note invoice_result = []"
proof -
  have f: "calculate_roi filing_input = Inr filing_result"
    and i: "calculate_roi invoice_input = Inr invoice_result"
    by code_simp+
  have l: "lower ''Retail'' = ''retail''"
    by code_simp
  have fi: "industry filing_input = Some ''Retail''" and ii: "industry invoice_input = None"
    by (simp_all add: filing_input_def invoice_input_def)
  from industry_note_iff [OF f] fi l
  have "industry_note filing_result =
          ''Note: Retail AI automation has proven ROI - fast implementation typical.''"
    by simp
  moreover from industry_note_iff [OF i] ii have "industry_note invoice_result = []"
    by simp
  ultimately show ?thesis
    using f i l fi ii by simp
qed

section \<open>Properties of the pattern aggregator\<close>

lemma avg_snoc:
  assumes "xs \<noteq> []"
  shows "(avg xs * of_nat (length xs) + x) / of_nat (length xs + 1) = avg (xs @ [x])"
proof -
  from assms have "(of_nat (length xs) :: rat) \<noteq> 0"
    by simp
  then have "avg xs * of_nat (length xs) = sum_list xs"
    by (simp add: avg_def)
  then show ?thesis
    by (simp add: avg_def)
qed

lemma avg_single: "avg [x] = x"
  by (simp add: avg_def)

text \<open>One upsert turns the summary of a history into the summary of the longer history.\<close>

lemma upsert_summary:
  assumes "\<forall>key. tbl key = summary (matching key hist)"
  shows "upsert t k s r tbl key = summary (matching key (hist @ [((t, k), s, r)]))"
proof (cases "key = (t, k)")
  case False
  then have "upsert t k s r tbl key = tbl key"
    by (auto simp: upsert_def split: option.splits)
  moreover from False have "matching key (hist @ [((t, k), s, r)]) = matching key hist"
    by (auto simp: matching_def)
  moreover from assms have "tbl key = summary (matching key hist)"
    by blast
  ultimately show ?thesis
    by simp
next
  case True
  let ?xs = "matching (t, k) hist"
  have m: "matching (t, k) (hist @ [((t, k), s, r)]) = ?xs @ [(s, r)]"
    by (simp add: matching_def)
  from assms have tk: "tbl (t, k) = summary ?xs"
    by blast
  show ?thesis
  proof (cases "?xs = []")
    case True
    with tk have "tbl (t, k) = None"
      by (simp add: summary_def)
    then have "upsert t k s r tbl (t, k) = Some \<lparr>frequency = 1, avg_savings = s, avg_roi = r\<rparr>"
      by (simp add: upsert_def)
    moreover from True have "summary (?xs @ [(s, r)]) =
        Some \<lparr>frequency = 1, avg_savings = s, avg_roi = r\<rparr>"
      by (simp add: summary_def avg_single)
    ultimately show ?thesis
      using \<open>key = (t, k)\<close> m by simp
  next
    case False
    let ?p = "\<lparr>frequency = length ?xs, avg_savings = avg (map fst ?xs),
               avg_roi = avg (map snd ?xs)\<rparr>"
    from False tk have "tbl (t, k) = Some ?p"
      by (simp add: summary_def)
    then have "upsert t k s r tbl (t, k) =
        Some \<lparr>frequency = length ?xs + 1,
              avg_savings = (avg (map fst ?xs) * of_nat (length ?xs) + s) / of_nat (length ?xs + 1),
              avg_roi = (avg (map snd ?xs) * of_nat (length ?xs) + r) / of_nat (length ?xs + 1)\<rparr>"
      by (simp add: upsert_def)
    moreover from False have
      "(avg (map fst ?xs) * of_nat (length ?xs) + s) / of_nat (length ?xs + 1) =
         avg (map fst ?xs @ [s])"
      "(avg (map snd ?xs) * of_nat (length ?xs) + r) / of_nat (length ?xs + 1) =
         avg (map snd ?xs @ [r])"
      using avg_snoc [of "map fst ?xs" s] avg_snoc [of "map snd ?xs" r] by simp_all
    ultimately have "upsert t k s r tbl (t, k) = summary (?xs @ [(s, r)])"
      by (simp add: summary_def)
    then show ?thesis
      using \<open>key = (t, k)\<close> m by simp
  qed
qed

lemma merge_observation_summary:
  assumes "\<forall>key. tbl key = summary (matching key hist)"
  shows "\<forall>key. merge_observation ob tbl key = summary (matching key (hist @ [ob]))"
proof
  fix key
  obtain t k s r where ob: "ob = ((t, k), s, r)"
    by (metis prod.collapse)
  from upsert_summary [OF assms, of t k s r key] show
    "merge_observation ob tbl key = summary (matching key (hist @ [ob]))"
    by (simp add: ob merge_observation_def)
qed

lemma fold_merge_summary:
  assumes "\<forall>key. tbl key = summary (matching key hist)"
  shows "fold merge_observation obs tbl key = summary (matching key (hist @ obs))"
  using assms
proof (induction obs arbitrary: tbl hist)
  case Nil
  then have "tbl key = summary (matching key hist)"
    by blast
  then show ?case by simp
next
  case (Cons ob obs)
  from merge_observation_summary [OF Cons.prems]
  have "\<forall>key. merge_observation ob tbl key = summary (matching key (hist @ [ob]))" .
  from Cons.IH [OF this] show ?case
    by simp
qed

lemma summary_mset:
  assumes "mset xs = mset ys"
  shows "summary xs = summary ys"
proof -
  from assms have l: "length xs = length ys"
    by (rule mset_eq_length)
  have "sum_list (map f xs) = sum_list (map f ys)" for f :: "rat \<times> rat \<Rightarrow> rat"
  proof -
    have "sum_list (map f xs) = sum_mset (image_mset f (mset xs))"
      by (metis mset_map sum_mset_sum_list)
    also have "\<dots> = sum_mset (image_mset f (mset ys))"
      by (simp add: assms)
    also have "\<dots> = sum_list (map f ys)"
      by (metis mset_map sum_mset_sum_list)
    finally show ?thesis .
  qed
  with l have "avg (map fst xs) = avg (map fst ys)" "avg (map snd xs) = avg (map snd ys)"
    by (simp_all add: avg_def)
  moreover from l have "xs = [] \<longleftrightarrow> ys = []"
    by auto
  ultimately show ?thesis
    using l by (simp add: summary_def)
qed

lemma empty_summary: "\<forall>key. Map.empty key = summary (matching key [])"
  by (simp add: summary_def matching_def)

lemma matching_same_key:
  "matching (t, k) (map (\<lambda>x. ((t, k), x)) xs) = xs"
  by (induction xs) (simp_all add: matching_def)

lemma matching_append: "matching key (a @ b) = matching key a @ matching key b"
  by (simp add: matching_def)

text \<open>
  Claim C6. Start from a store that holds, for every key, the frequency and the arithmetic
  means of the observations folded so far (the empty store is one). Folding the same
  (savings, ROI) pairs under one key in any two orders yields the same store; the record
  under the key then has as frequency the number of all pairs folded under that key and as
  averages their arithmetic means.
\<close>

theorem merge_order_independent:
  assumes "mset xs = mset ys"
    and "\<forall>key. tbl key = summary (matching key hist)"
  shows "fold (\<lambda>x. upsert t k (fst x) (snd x)) xs tbl =
           fold (\<lambda>x. upsert t k (fst x) (snd x)) ys tbl \<and>
         fold (\<lambda>x. upsert t k (fst x) (snd x)) ys tbl (t, k) =
           summary (matching (t, k) hist @ xs)"
proof -
  have f: "fold (\<lambda>x. upsert t k (fst x) (snd x)) zs tbl key =
             summary (matching key hist @ matching key (map (\<lambda>x. ((t, k), x)) zs))"
    for zs key
  proof -
    have "merge_observation ((t, k), x) = upsert t k (fst x) (snd x)" for x
      by (rule ext) (simp add: merge_observation_def)
    then have "fold (\<lambda>x. upsert t k (fst x) (snd x)) zs tbl =
            fold merge_observation (map (\<lambda>x. ((t, k), x)) zs) tbl"
      by (simp add: fold_map comp_def)
    then show ?thesis
      using fold_merge_summary [OF assms(2)] by (simp add: matching_append)
  qed
  have m: "mset (matching key (map (\<lambda>x. ((t, k), x)) xs)) =
           mset (matching key (map (\<lambda>x. ((t, k), x)) ys))" for key
  proof -
    have "mset (matching key (map (\<lambda>x. ((t, k), x)) zs)) =
          image_mset snd (filter_mset (\<lambda>ob. fst ob = key)
            (image_mset (\<lambda>x. ((t, k), x)) (mset zs)))" for zs
      by (simp add: matching_def)
    then show ?thesis
      by (simp add: assms(1))
  qed
  have "fold (\<lambda>x. upsert t k (fst x) (snd x)) xs tbl key =
        fold (\<lambda>x. upsert t k (fst x) (snd x)) ys tbl key" for key
    unfolding f using m [of key] by (intro summary_mset) simp
  then have "fold (\<lambda>x. upsert t k (fst x) (snd x)) xs tbl =
             fold (\<lambda>x. upsert t k (fst x) (snd x)) ys tbl"
    by (rule ext)
  moreover have "fold (\<lambda>x. upsert t k (fst x) (snd x)) ys tbl (t, k) =
                 summary (matching (t, k) hist @ xs)"
    unfolding f matching_same_key using assms(1) by (intro summary_mset) simp
  ultimately show ?thesis
    by simp
qed

text \<open>
  Claim C6 at three observations folded into the empty store in two different orders: both
  orders give frequency 3 and the means 300 and 30.
\<close>

theorem merge_order_independent_witness:
  "mset [(100, 10), (200, 30), (600, 50 :: rat)] = mset [(600, 50), (100, 10), (200 :: rat, 30)] \<and>
   fold (\<lambda>x. upsert high_value HighValueKey (fst x) (snd x))
     [(100, 10), (200, 30), (600, 50)] Map.empty =
   fold (\<lambda>x. upsert high_value HighValueKey (fst x) (snd x))
     [(600, 50), (100, 10), (200, 30)] Map.empty \<and>
   fold (\<lambda>x. upsert high_value HighValueKey (fst x) (snd x))
     [(600, 50), (100, 10), (200, 30)] Map.empty (high_value, HighValueKey) =
   Some \<lparr>frequency = 3, avg_savings = 300, avg_roi = 30\<rparr>"
proof -
  have p: "mset [(100, 10), (200, 30), (600, 50 :: rat)] =
           mset [(600, 50), (100, 10), (200 :: rat, 30)]"
    by simp
  have s: "summary (matching (high_value, HighValueKey) [] @ [(100, 10), (200, 30), (600, 50)]) =
           Some \<lparr>frequency = 3, avg_savings = 300, avg_roi = 30\<rparr>"
    by (simp add: summary_def matching_def avg_def)
  from merge_order_independent [OF p empty_summary, of high_value HighValueKey] p s
  show ?thesis
    by simp
qed

lemma analyze_patterns_patterns: "roi_patterns (analyze_patterns d) = roi_patterns d"
  by (simp add: analyze_patterns_def Let_def split: list.splits)

lemma check_analysis_trigger_patterns: "roi_patterns (check_analysis_trigger d) = roi_patterns d"
  by (simp add: check_analysis_trigger_def analyze_patterns_patterns)

lemma log_patterns_fold:
  "roi_patterns (log_patterns d pd) =
     fold merge_observation (logged_observations pd) (roi_patterns d)"
proof -
  have hv: "pd_annual_savings pd \<noteq> 0 \<and> pd_annual_savings pd > 50000 \<longleftrightarrow>
            pd_annual_savings pd > 50000"
    by auto
  show ?thesis
    unfolding log_patterns_def Let_def check_analysis_trigger_patterns hv
    by (cases "pd_industry pd"; cases "pd_process_name pd")
       (simp_all add: logged_observations_def truthy_def merge_observation_def)
qed

lemma foldl_log_patterns_fold:
  "roi_patterns (foldl log_patterns d pds) =
     fold merge_observation (concat (map logged_observations pds)) (roi_patterns d)"
  by (induction pds arbitrary: d) (simp_all add: log_patterns_fold)

text \<open>
  What the pattern records hold after any sequence of calls from a store without pattern
  records: under each key, the number of the observations with that key that passed the
  guards of \<^verbatim>\<open>log_patterns\<close>, and the arithmetic means of their savings and ROI. An
  observation that passes is merged once and is never lost afterwards.
\<close>

lemma log_patterns_summary:
  assumes "roi_patterns d = Map.empty"
  shows "roi_patterns (foldl log_patterns d pds) key =
           summary (matching key (concat (map logged_observations pds)))"
proof -
  from assms have "\<forall>key. roi_patterns d key = summary (matching key [])"
    by (simp add: summary_def matching_def)
  from fold_merge_summary [OF this] show ?thesis
    by (simp add: foldl_log_patterns_fold)
qed

text \<open>
  Claim C1 asks that the industry-keyed observation be merged whenever an industry is
  present and the process-keyed one always. The code does not do so at two accepted
  requests. The first has annual savings of exactly zero (3 hours a week at 10 an hour for
  one person, monthly tool cost 70, industry "Retail", process "Filing"): after the handler
  has stored the projection in the empty store, neither key has a pattern record. The
  second has an ROI of exactly zero (4 hours a week at 50 an hour for one person, industry
  "Legal", process "Ledger"): its process-keyed observation is merged, its industry-keyed
  one is not.
\<close>

theorem log_patterns_zero_amount_dropped:
  "calculate_roi filing_input = Inr filing_result \<and>
   claimed_observations (projection_data_of filing_input filing_result) =
     [((industry_roi, IndustryKey ''Retail''), 0, - 100),
      ((process_savings, ProcessKey ''Filing''), 0, - 100)] \<and>
   roi_patterns (store_projection empty_db filing_input filing_result)
     (industry_roi, IndustryKey ''Retail'') = None \<and>
   roi_patterns (store_projection empty_db filing_input filing_result)
     (process_savings, ProcessKey ''Filing'') = None \<and>
   calculate_roi ledger_input = Inr ledger_result \<and>
   claimed_observations (projection_data_of ledger_input ledger_result) =
     [((industry_roi, IndustryKey ''Legal''), 8000, 0),
      ((process_savings, ProcessKey ''Ledger''), 8000, 0)] \<and>
   roi_patterns (store_projection empty_db ledger_input ledger_result)
     (industry_roi, IndustryKey ''Legal'') = None \<and>
   roi_patterns (store_projection empty_db ledger_input ledger_result)
     (process_savings, ProcessKey ''Ledger'') =
     Some \<lparr>frequency = 1, avg_savings = 8000, avg_roi = 0\<rparr>"
proof -
  have "calculate_roi filing_input = Inr filing_result"
    and "calculate_roi ledger_input = Inr ledger_result"
    by code_simp+
  moreover have "claimed_observations (projection_data_of filing_input filing_result) =
     [((industry_roi, IndustryKey ''Retail''), 0, - 100),
      ((process_savings, ProcessKey ''Filing''), 0, - 100)]"
    by (simp add: claimed_observations_def projection_data_of_def filing_input_def
        filing_result_def)
  moreover have "claimed_observations (projection_data_of ledger_input ledger_result) =
     [((industry_roi, IndustryKey ''Legal''), 8000, 0),
      ((process_savings, ProcessKey ''Ledger''), 8000, 0)]"
    by (simp add: claimed_observations_def projection_data_of_def ledger_input_def
        ledger_result_def)
  moreover have "roi_patterns (store_projection empty_db filing_input filing_result) =
                 Map.empty"
    by (simp add: store_projection_def log_patterns_fold logged_observations_def
        projection_data_of_def filing_input_def filing_result_def empty_db_def)
  moreover have "roi_patterns (store_projection empty_db ledger_input ledger_result) =
      [(process_savings, ProcessKey ''Ledger'') \<mapsto>
         \<lparr>frequency = 1, avg_savings = 8000, avg_roi = 0\<rparr>]"
    by (simp add: store_projection_def log_patterns_fold logged_observations_def
        projection_data_of_def ledger_input_def ledger_result_def empty_db_def
        merge_observation_def upsert_def)
  ultimately show ?thesis
    by simp
qed

section \<open>Properties of the insight generator\<close>

lemma top5_Nil: "(\<forall>g \<in> set gs. g_count g < 3) \<Longrightarrow> top5 f gs = []"
  by (simp add: top5_def filter_empty_conv not_le)

lemma top5_single: "filter (\<lambda>g. g_count g \<ge> 3) gs = [g] \<Longrightarrow> top5 f gs = [g]"
  by (simp add: top5_def)

lemma filter_unique:
  assumes "distinct ks" and "p \<in> set ks" and "P p" and "\<forall>q \<in> set ks. q \<noteq> p \<longrightarrow> \<not> P q"
  shows "filter P ks = [p]"
  using assms
proof (induction ks)
  case Nil
  then show ?case by simp
next
  case (Cons k ks)
  show ?case
  proof (cases "k = p")
    case True
    with Cons.prems have "\<forall>q \<in> set ks. \<not> P q"
      by auto
    then have "filter P ks = []"
      by (simp add: filter_empty_conv)
    with True Cons.prems(3) show ?thesis
      by simp
  next
    case False
    with Cons.prems have "filter P ks = [p]"
      by (intro Cons.IH) auto
    moreover from False Cons.prems(4) have "\<not> P k"
      by simp
    ultimately show ?thesis
      by simp
  qed
qed

lemma g_count_group_of: "g_count (group_of rows k) = length (filter (\<lambda>r. fst r = k) rows)"
  by (simp add: group_of_def Let_def)

lemma group_by_none:
  assumes "\<forall>k. length (filter (\<lambda>r. fst r = k) rows) < 3"
  shows "top5 f (group_by rows) = []"
  using assms by (intro top5_Nil) (auto simp: group_by_def g_count_group_of)

lemma group_by_one:
  assumes "length (filter (\<lambda>r. fst r = p) rows) = 3"
    and "\<forall>k. k \<noteq> p \<longrightarrow> length (filter (\<lambda>r. fst r = k) rows) < 3"
  shows "top5 f (group_by rows) = [group_of rows p]"
proof -
  from assms(1) have "filter (\<lambda>r. fst r = p) rows \<noteq> []"
    by auto
  then have "p \<in> set (remdups (map fst rows))"
    by (auto simp: filter_empty_conv)
  moreover from assms(2) have
    "\<forall>q \<in> set (remdups (map fst rows)). q \<noteq> p \<longrightarrow> \<not> 3 \<le> g_count (group_of rows q)"
    by (simp add: g_count_group_of not_le)
  moreover from assms(1) have "3 \<le> g_count (group_of rows p)"
    by (simp add: g_count_group_of)
  ultimately have "filter (\<lambda>k. 3 \<le> g_count (group_of rows k)) (remdups (map fst rows)) = [p]"
    by (intro filter_unique) simp_all
  then have "filter (\<lambda>g. g_count g \<ge> 3) (group_by rows) = [group_of rows p]"
    by (simp add: group_by_def filter_map comp_def)
  then show ?thesis
    by (rule top5_single)
qed

lemma process_rows_filter:
  "filter (\<lambda>r. fst r = p) (process_rows rows) =
     process_rows (filter (\<lambda>r. row_process_name r = p) rows)"
  by (simp add: process_rows_def filter_map comp_def)

lemma industry_rows_filter:
  "filter (\<lambda>r. fst r = k) (industry_rows rows) =
     (case k of None \<Rightarrow> []
      | Some i \<Rightarrow> industry_rows (filter (\<lambda>r. row_industry r = Some i) rows))"
proof (cases k)
  case None
  then show ?thesis
    by (auto simp: industry_rows_def filter_map comp_def filter_empty_conv)
next
  case (Some i)
  have "(\<lambda>r. row_industry r \<noteq> None \<and> row_industry r = Some i) = (\<lambda>r. row_industry r = Some i)"
    by auto
  with Some show ?thesis
    by (simp add: industry_rows_def filter_map comp_def conj_commute)
qed

lemma process_rows_proj:
  "length (process_rows xs) = length xs"
  "map (\<lambda>r. fst (snd r)) (process_rows xs) = map row_annual_savings xs"
  "map (\<lambda>r. snd (snd r)) (process_rows xs) = map row_roi_percentage xs"
  by (simp_all add: process_rows_def comp_def)

lemma industry_rows_Some:
  "industry_rows (filter (\<lambda>r. row_industry r = Some i) rows) =
     map (\<lambda>r. (row_industry r, row_annual_savings r, row_roi_percentage r))
       (filter (\<lambda>r. row_industry r = Some i) rows)"
  by (simp add: industry_rows_def conj_commute cong: conj_cong)

lemma industry_rows_proj:
  "length (industry_rows (filter (\<lambda>r. row_industry r = Some i) rows)) =
     length (filter (\<lambda>r. row_industry r = Some i) rows)"
  "map (\<lambda>r. fst (snd r)) (industry_rows (filter (\<lambda>r. row_industry r = Some i) rows)) =
     map row_annual_savings (filter (\<lambda>r. row_industry r = Some i) rows)"
  "map (\<lambda>r. snd (snd r)) (industry_rows (filter (\<lambda>r. row_industry r = Some i) rows)) =
     map row_roi_percentage (filter (\<lambda>r. row_industry r = Some i) rows)"
  by (simp_all add: industry_rows_Some comp_def)

lemma process_rows_count:
  "length (filter (\<lambda>r. fst r = p) (process_rows (roi_projections d))) = process_count d p"
  by (simp add: process_rows_filter process_rows_proj process_count_def)

lemma industry_rows_count:
  "length (filter (\<lambda>r. fst r = k) (industry_rows (roi_projections d))) =
     (case k of None \<Rightarrow> 0 | Some i \<Rightarrow> industry_count d i)"
proof (cases k)
  case None
  then show ?thesis
    by (simp add: industry_rows_filter)
next
  case (Some i)
  then show ?thesis
    by (simp add: industry_rows_filter industry_rows_proj industry_count_def)
qed

lemma no_process_qualifies:
  assumes "\<forall>p. process_count d p < 3"
  shows "top_processes d = []"
  unfolding top_processes_def using assms
  by (intro group_by_none) (simp add: process_rows_count)

lemma no_industry_qualifies:
  assumes "\<forall>i. industry_count d i < 3"
  shows "top_industries d = []"
  unfolding top_industries_def
proof (rule group_by_none, rule allI)
  fix k
  from assms show "length (filter (\<lambda>r. fst r = k) (industry_rows (roi_projections d))) < 3"
    by (cases k) (simp_all add: industry_rows_count)
qed

lemma one_process_qualifies:
  assumes "process_count d p = 3" and "\<forall>q. q \<noteq> p \<longrightarrow> process_count d q < 3"
  shows "top_processes d = [group_of (process_rows (roi_projections d)) p]"
  unfolding top_processes_def using assms
  by (intro group_by_one) (simp_all add: process_rows_count)

lemma one_industry_qualifies:
  assumes "industry_count d i = 3" and "\<forall>j. j \<noteq> i \<longrightarrow> industry_count d j < 3"
  shows "top_industries d = [group_of (industry_rows (roi_projections d)) (Some i)]"
  unfolding top_industries_def
proof (rule group_by_one)
  from assms(1) show
    "length (filter (\<lambda>r. fst r = Some i) (industry_rows (roi_projections d))) = 3"
    by (simp add: industry_rows_count)
  show "\<forall>k. k \<noteq> Some i \<longrightarrow>
          length (filter (\<lambda>r. fst r = k) (industry_rows (roi_projections d))) < 3"
  proof (intro allI impI)
    fix k :: "string option"
    assume "k \<noteq> Some i"
    with assms(2) show "length (filter (\<lambda>r. fst r = k) (industry_rows (roi_projections d))) < 3"
      by (cases k) (simp_all add: industry_rows_count)
  qed
qed

lemma process_insight:
  "insight_of best_roi_process c (group_of (process_rows (roi_projections d)) p) =
     \<lparr>insight_kind = best_roi_process, confidence = c, subject = p,
      sup_avg_roi = avg (map row_roi_percentage (process_group d p)),
      sup_avg_savings = avg (map row_annual_savings (process_group d p)),
      sup_frequency = process_count d p\<rparr>"
  by (simp add: insight_of_def group_of_def Let_def process_rows_filter process_rows_proj
      process_group_def process_count_def)

lemma industry_insight:
  "insight_of best_savings_industry c (group_of (industry_rows (roi_projections d)) (Some i)) =
     \<lparr>insight_kind = best_savings_industry, confidence = c, subject = Some i,
      sup_avg_roi = avg (map row_roi_percentage (industry_group d i)),
      sup_avg_savings = avg (map row_annual_savings (industry_group d i)),
      sup_frequency = industry_count d i\<rparr>"
  by (simp add: insight_of_def group_of_def Let_def industry_rows_filter industry_rows_proj
      industry_group_def industry_count_def)

text \<open>
  Claim C8. If every process-name group and every industry group of the recorded
  projections has fewer than 3 rows, \<^verbatim>\<open>analyze_patterns\<close> inserts no insight. If one
  process-name group has exactly 3 rows and every other group, of either kind, has fewer,
  it inserts exactly one insight, of type \<^verbatim>\<open>best_roi_process\<close> with confidence 0.95, about
  that process. If one industry group has exactly 3 rows and every other group has fewer,
  it inserts exactly one insight, of type \<^verbatim>\<open>best_savings_industry\<close> with confidence 0.90,
  about that industry. A ranking without a qualifying group is passed over; the function
  has no failing branch.
\<close>

theorem analyze_patterns_insights:
  "((\<forall>q. process_count d q < 3) \<and> (\<forall>j. industry_count d j < 3) \<longrightarrow>
      roi_insights (analyze_patterns d) = roi_insights d) \<and>
   (process_count d p = 3 \<and> (\<forall>q. q \<noteq> p \<longrightarrow> process_count d q < 3) \<and>
    (\<forall>j. industry_count d j < 3) \<longrightarrow>
      roi_insights (analyze_patterns d) =
        roi_insights d @
        [\<lparr>insight_kind = best_roi_process, confidence = 95 / 100, subject = p,
          sup_avg_roi = avg (map row_roi_percentage (process_group d p)),
          sup_avg_savings = avg (map row_annual_savings (process_group d p)),
          sup_frequency = 3\<rparr>]) \<and>
   (industry_count d i = 3 \<and> (\<forall>j. j \<noteq> i \<longrightarrow> industry_count d j < 3) \<and>
    (\<forall>q. process_count d q < 3) \<longrightarrow>
      roi_insights (analyze_patterns d) =
        roi_insights d @
        [\<lparr>insight_kind = best_savings_industry, confidence = 90 / 100, subject = Some i,
          sup_avg_roi = avg (map row_roi_percentage (industry_group d i)),
          sup_avg_savings = avg (map row_annual_savings (industry_group d i)),
          sup_frequency = 3\<rparr>])"
proof (intro conjI impI)
  assume "(\<forall>q. process_count d q < 3) \<and> (\<forall>j. industry_count d j < 3)"
  then have "top_processes d = []" "top_industries d = []"
    by (simp_all add: no_process_qualifies no_industry_qualifies)
  then show "roi_insights (analyze_patterns d) = roi_insights d"
    by (simp add: analyze_patterns_def)
next
  assume a: "process_count d p = 3 \<and> (\<forall>q. q \<noteq> p \<longrightarrow> process_count d q < 3) \<and>
             (\<forall>j. industry_count d j < 3)"
  then have "top_processes d = [group_of (process_rows (roi_projections d)) p]"
    and "top_industries d = []"
    by (simp_all add: one_process_qualifies no_industry_qualifies)
  then have "roi_insights (analyze_patterns d) =
      roi_insights d @
      [insight_of best_roi_process (95 / 100) (group_of (process_rows (roi_projections d)) p)]"
    by (simp add: analyze_patterns_def)
  with a show "roi_insights (analyze_patterns d) =
      roi_insights d @
      [\<lparr>insight_kind = best_roi_process, confidence = 95 / 100, subject = p,
        sup_avg_roi = avg (map row_roi_percentage (process_group d p)),
        sup_avg_savings = avg (map row_annual_savings (process_group d p)),
        sup_frequency = 3\<rparr>]"
    by (simp only: process_insight)
next
  assume a: "industry_count d i = 3 \<and> (\<forall>j. j \<noteq> i \<longrightarrow> industry_count d j < 3) \<and>
             (\<forall>q. process_count d q < 3)"
  then have "top_industries d = [group_of (industry_rows (roi_projections d)) (Some i)]"
    and "top_processes d = []"
    by (simp_all add: one_industry_qualifies no_process_qualifies)
  then have "roi_insights (analyze_patterns d) =
      roi_insights d @
      [insight_of best_savings_industry (90 / 100)
         (group_of (industry_rows (roi_projections d)) (Some i))]"
    by (simp add: analyze_patterns_def)
  with a show "roi_insights (analyze_patterns d) =
      roi_insights d @
      [\<lparr>insight_kind = best_savings_industry, confidence = 90 / 100, subject = Some i,
        sup_avg_roi = avg (map row_roi_percentage (industry_group d i)),
        sup_avg_savings = avg (map row_annual_savings (industry_group d i)),
        sup_frequency = 3\<rparr>]"
    by (simp only: industry_insight)
qed

text \<open>
  Claim C8 at three stores: two projections only (no insight); three projections of the
  process "Filing" from different industries (one \<^verbatim>\<open>best_roi_process\<close> insight); three
  projections of the industry "Retail" for different processes (one
  \<^verbatim>\<open>best_savings_industry\<close> insight).
\<close>

theorem analyze_patterns_insights_witness:
  "roi_insights (analyze_patterns two_rows_db) = [] \<and>
   process_count one_process_db (Some ''Filing'') = 3 \<and>
   roi_insights (analyze_patterns one_process_db) =
     [\<lparr>insight_kind = best_roi_process, confidence = 95 / 100, subject = Some ''Filing'',
       sup_avg_roi = 30, sup_avg_savings = 3000, sup_frequency = 3\<rparr>] \<and>
   industry_count one_industry_db ''Retail'' = 3 \<and>
   roi_insights (analyze_patterns one_industry_db) =
     [\<lparr>insight_kind = best_savings_industry, confidence = 90 / 100, subject = Some ''Retail'',
       sup_avg_roi = 30, sup_avg_savings = 3000, sup_frequency = 3\<rparr>]"
proof -
  have t: "(\<forall>q. process_count two_rows_db q < 3) \<and> (\<forall>j. industry_count two_rows_db j < 3)"
    by (simp add: process_count_def industry_count_def two_rows_db_def)
  have p: "process_count one_process_db (Some ''Filing'') = 3 \<and>
           (\<forall>q. q \<noteq> Some ''Filing'' \<longrightarrow> process_count one_process_db q < 3) \<and>
           (\<forall>j. industry_count one_process_db j < 3)"
    by (simp add: process_count_def industry_count_def one_process_db_def)
  have i: "industry_count one_industry_db ''Retail'' = 3 \<and>
           (\<forall>j. j \<noteq> ''Retail'' \<longrightarrow> industry_count one_industry_db j < 3) \<and>
           (\<forall>q. process_count one_industry_db q < 3)"
    by (simp add: process_count_def industry_count_def one_industry_db_def)
  have e: "roi_insights two_rows_db = []" "roi_insights one_process_db = []"
    "roi_insights one_industry_db = []"
    by (simp_all add: two_rows_db_def one_process_db_def one_industry_db_def)
  have g: "avg (map row_roi_percentage (process_group one_process_db (Some ''Filing''))) = 30"
    "avg (map row_annual_savings (process_group one_process_db (Some ''Filing''))) = 3000"
    "avg (map row_roi_percentage (industry_group one_industry_db ''Retail'')) = 30"
    "avg (map row_annual_savings (industry_group one_industry_db ''Retail'')) = 3000"
    by (simp_all add: avg_def process_group_def industry_group_def one_process_db_def
        one_industry_db_def)
  from analyze_patterns_insights [of two_rows_db "Some ''Filing''" "''Retail''"] t e
  have "roi_insights (analyze_patterns two_rows_db) = []"
    by simp
  moreover
  from analyze_patterns_insights [of one_process_db "Some ''Filing''" "''Retail''"] p e g
  have "roi_insights (analyze_patterns one_process_db) =
     [\<lparr>insight_kind = best_roi_process, confidence = 95 / 100, subject = Some ''Filing'',
       sup_avg_roi = 30, sup_avg_savings = 3000, sup_frequency = 3\<rparr>]"
    by simp
  moreover
  from analyze_patterns_insights [of one_industry_db "Some ''Filing''" "''Retail''"] i e g
  have "roi_insights (analyze_patterns one_industry_db) =
     [\<lparr>insight_kind = best_savings_industry, confidence = 90 / 100, subject = Some ''Retail'',
       sup_avg_roi = 30, sup_avg_savings = 3000, sup_frequency = 3\<rparr>]"
    by simp
  ultimately show ?thesis
    using p i by simp
qed

end
